theory Spec2Isabelle
  imports Complex_Main "HOL-Library.Word" "HOL-Library.Multiset"
begin

section \<open>Values of the validation module\<close>

text \<open>
  The module \<^verbatim>\<open>src/validate_extraction.py\<close> scores the records of one JSON document
  against those of another. A Python \<^verbatim>\<open>str\<close> is a sequence of Unicode code points;
  a value read by \<^verbatim>\<open>json.load\<close> is \<^verbatim>\<open>None\<close>, a \<^verbatim>\<open>bool\<close>, an
  unbounded \<^verbatim>\<open>int\<close>, a \<^verbatim>\<open>float\<close> (its 64 bits), a \<^verbatim>\<open>str\<close>, a
  \<^verbatim>\<open>list\<close> or a \<^verbatim>\<open>dict\<close> with \<^verbatim>\<open>str\<close> keys. A dict is an association
  list read through \<open>map_of\<close>.
\<close>

type_synonym pystr = "nat list"

definition ustr :: "string \<Rightarrow> pystr" where
  "ustr s = map of_char s"

datatype json =
    JNull
  | JBool bool
  | JInt int
  | JFloat "64 word"
  | JStr pystr
  | JList "json list"
  | JDict "(pystr \<times> json) list"

datatype error =
    FileNotFoundError pystr
  | OSError pystr
  | JSONDecodeError pystr
  | ValueError pystr
  | KeyError pystr
  | TypeError
  | ZeroDivisionError

text \<open>Sequencing of two steps, the first of which may raise.\<close>

definition seq :: "error + 'a \<Rightarrow> ('a \<Rightarrow> error + 'b) \<Rightarrow> error + 'b" where
  "seq m f = (case m of Inl e \<Rightarrow> Inl e | Inr x \<Rightarrow> f x)"

subsection \<open>Builtins the module calls\<close>

text \<open>
  \<^verbatim>\<open>str.strip()\<close> removes the leading and trailing characters for which
  \<^verbatim>\<open>str.isspace\<close> holds; \<open>isspace\<close> is CPython's table of whitespace code points.
\<close>

definition isspace :: "nat \<Rightarrow> bool" where
  "isspace c =
     ((9 \<le> c \<and> c \<le> 13) \<or> (28 \<le> c \<and> c \<le> 32) \<or> c = 133 \<or> c = 160 \<or> c = 5760
      \<or> (8192 \<le> c \<and> c \<le> 8202) \<or> c = 8232 \<or> c = 8233 \<or> c = 8239 \<or> c = 8287
      \<or> c = 12288)"

definition strip :: "pystr \<Rightarrow> pystr" where
  "strip s = rev (dropWhile isspace (rev (dropWhile isspace s)))"

text \<open>
  \<^verbatim>\<open>str(v)\<close> is \<open>v\<close> itself when \<open>v\<close> is a \<^verbatim>\<open>str\<close>; for every other value it is
  the text of \<^verbatim>\<open>repr(v)\<close>, which the module does not define: it is the parameter
  \<open>repr\<close> of every function that stringifies.
\<close>

definition py_str :: "(json \<Rightarrow> pystr) \<Rightarrow> json \<Rightarrow> pystr" where
  "py_str repr v = (case v of JStr s \<Rightarrow> s | _ \<Rightarrow> repr v)"

text \<open>Truth value of a value, as \<^verbatim>\<open>x or y\<close> tests it; a float is false when it is
  \<open>0.0\<close> or \<open>-0.0\<close>.\<close>

fun truthy :: "json \<Rightarrow> bool" where
  "truthy JNull = False"
| "truthy (JBool b) = b"
| "truthy (JInt i) = (i \<noteq> 0)"
| "truthy (JFloat w) = (w \<noteq> 0 \<and> w \<noteq> 0x8000000000000000)"
| "truthy (JStr s) = (s \<noteq> [])"
| "truthy (JList xs) = (xs \<noteq> [])"
| "truthy (JDict kvs) = (kvs \<noteq> [])"

definition py_or :: "json \<Rightarrow> json \<Rightarrow> json" where
  "py_or a b = (if truthy a then a else b)"

text \<open>\<^verbatim>\<open>current[key]\<close>: \<^verbatim>\<open>KeyError\<close> on a dict without the key,
  \<^verbatim>\<open>TypeError\<close> on every other JSON value subscripted by a \<^verbatim>\<open>str\<close>.\<close>

fun getitem :: "json \<Rightarrow> pystr \<Rightarrow> error + json" where
  "getitem (JDict kvs) key = (case map_of kvs key of None \<Rightarrow> Inl (KeyError key) | Some v \<Rightarrow> Inr v)"
| "getitem _ key = Inl TypeError"

text \<open>\<^verbatim>\<open>isinstance(current, dict) and key in current\<close>.\<close>

fun is_dict_with :: "json \<Rightarrow> pystr \<Rightarrow> bool" where
  "is_dict_with (JDict kvs) key = (key \<in> fst ` set kvs)"
| "is_dict_with _ key = False"

fun is_list :: "json \<Rightarrow> bool" where
  "is_list (JList xs) = True"
| "is_list _ = False"

text \<open>\<^verbatim>\<open>a / b\<close> on two ints. The float that Python returns is the correctly rounded
  value of the exact quotient, which is what the model keeps.\<close>

definition truediv :: "nat \<Rightarrow> nat \<Rightarrow> error + rat" where
  "truediv a b = (if b = 0 then Inl ZeroDivisionError else Inr (of_nat a / of_nat b))"

section \<open>Record loader\<close>

text \<open>What the loader finds at a path: nothing, something that \<^verbatim>\<open>open\<close> refuses,
  a text that \<^verbatim>\<open>json.load\<close> rejects, or a parsed document.\<close>

datatype file_state = Absent | Unopenable | Undecodable | Parsed json

definition load_json :: "(pystr \<Rightarrow> file_state) \<Rightarrow> pystr \<Rightarrow> error + json list" where
  "load_json fs path =
     (case fs path of
        Absent \<Rightarrow> Inl (FileNotFoundError path)
      | Unopenable \<Rightarrow> Inl (OSError path)
      | Undecodable \<Rightarrow> Inl (JSONDecodeError path)
      | Parsed data \<Rightarrow> (case data of JList xs \<Rightarrow> Inr xs | _ \<Rightarrow> Inl (ValueError path)))"

section \<open>Field accessor\<close>

text \<open>The loop of \<^verbatim>\<open>_get_nested\<close>: \<open>Inr None\<close> is its \<^verbatim>\<open>return default\<close>,
  \<open>Inr (Some v)\<close> the value of \<^verbatim>\<open>current\<close> when the keys are used up.\<close>

fun walk :: "json \<Rightarrow> pystr list \<Rightarrow> error + json option" where
  "walk current [] = Inr (Some current)"
| "walk current (key # keys) =
     (if is_dict_with current key
      then seq (getitem current key) (\<lambda>v. walk v keys)
      else Inr None)"

definition get_nested :: "json \<Rightarrow> pystr list \<Rightarrow> json list option \<Rightarrow> error + json" where
  "get_nested obj keys default_list =
     (let default = (if default_list \<noteq> None then JList [] else JStr [])
      in seq (walk obj keys) (\<lambda>r.
           case r of
             None \<Rightarrow> Inr default
           | Some current \<Rightarrow>
               if default_list \<noteq> None \<and> \<not> is_list current then Inr (JList [])
               else Inr (if current \<noteq> JNull then current else default)))"

fun ensure_list :: "json \<Rightarrow> json list" where
  "ensure_list JNull = []"
| "ensure_list (JList xs) = xs"
| "ensure_list _ = []"

section \<open>Metric engine\<close>

text \<open>The normalisation of a scalar in \<^verbatim>\<open>compute_exact_match_accuracy\<close>:
  \<^verbatim>\<open>"" if g is None or g == "" else str(g).strip()\<close>.\<close>

definition norm_scalar :: "(json \<Rightarrow> pystr) \<Rightarrow> json \<Rightarrow> pystr" where
  "norm_scalar repr g = (if g = JNull \<or> g = JStr [] then [] else strip (py_str repr g))"

fun exact_loop ::
  "(json \<Rightarrow> pystr) \<Rightarrow> ('a \<Rightarrow> error + json) \<Rightarrow> ('b \<Rightarrow> error + json) \<Rightarrow> ('a \<times> 'b) list \<Rightarrow> nat
     \<Rightarrow> error + nat" where
  "exact_loop repr getter_gold getter_pred [] correct = Inr correct"
| "exact_loop repr getter_gold getter_pred ((gold, pred) # rest) correct =
     seq (getter_gold gold) (\<lambda>g.
     seq (getter_pred pred) (\<lambda>p.
       exact_loop repr getter_gold getter_pred rest
         (if norm_scalar repr g = norm_scalar repr p then correct + 1 else correct)))"

definition compute_exact_match_accuracy ::
  "(json \<Rightarrow> pystr) \<Rightarrow> 'a list \<Rightarrow> 'b list \<Rightarrow> ('a \<Rightarrow> error + json) \<Rightarrow> ('b \<Rightarrow> error + json)
     \<Rightarrow> error + rat" where
  "compute_exact_match_accuracy repr gold_list pred_list getter_gold getter_pred =
     (let n = length gold_list
      in if n = 0 then Inr 0
         else seq (exact_loop repr getter_gold getter_pred (zip gold_list pred_list) 0)
                (\<lambda>correct. truediv correct n))"

text \<open>The inner loop of \<^verbatim>\<open>compute_list_recall\<close> over the gold items of one record;
  the pair is \<open>(total_tp, total_fn)\<close>.\<close>

fun recall_items :: "(json \<Rightarrow> pystr) \<Rightarrow> json list \<Rightarrow> json list \<Rightarrow> nat \<times> nat \<Rightarrow> nat \<times> nat" where
  "recall_items repr [] p_items (total_tp, total_fn) = (total_tp, total_fn)"
| "recall_items repr (g_item # rest) p_items (total_tp, total_fn) =
     (let g_str = strip (py_str repr g_item)
      in if g_str \<in> set (map (\<lambda>x. strip (py_str repr x)) p_items)
         then recall_items repr rest p_items (total_tp + 1, total_fn)
         else recall_items repr rest p_items (total_tp, total_fn + 1))"

fun recall_loop ::
  "(json \<Rightarrow> pystr) \<Rightarrow> ('a \<Rightarrow> error + json) \<Rightarrow> ('b \<Rightarrow> error + json) \<Rightarrow> ('a \<times> 'b) list
     \<Rightarrow> nat \<times> nat \<Rightarrow> error + nat \<times> nat" where
  "recall_loop repr getter_gold getter_pred [] totals = Inr totals"
| "recall_loop repr getter_gold getter_pred ((gold, pred) # rest) totals =
     seq (getter_gold gold) (\<lambda>g.
     seq (getter_pred pred) (\<lambda>p.
       recall_loop repr getter_gold getter_pred rest
         (recall_items repr (ensure_list g) (ensure_list p) totals)))"

definition compute_list_recall ::
  "(json \<Rightarrow> pystr) \<Rightarrow> 'a list \<Rightarrow> 'b list \<Rightarrow> ('a \<Rightarrow> error + json) \<Rightarrow> ('b \<Rightarrow> error + json)
     \<Rightarrow> error + rat" where
  "compute_list_recall repr gold_list pred_list getter_gold getter_pred =
     seq (recall_loop repr getter_gold getter_pred (zip gold_list pred_list) (0, 0))
       (\<lambda>(total_tp, total_fn).
          let total_relevant = total_tp + total_fn
          in if total_relevant = 0 then Inr 1 else truediv total_tp total_relevant)"

section \<open>The validation run\<close>

text \<open>The six getters local to \<^verbatim>\<open>run_validation\<close>.\<close>

definition get_diabetes_type :: "json \<Rightarrow> error + json" where
  "get_diabetes_type obj =
     seq (get_nested obj [ustr ''diabetes'', ustr ''type''] None) (\<lambda>v. Inr (py_or v (JStr [])))"

definition get_diabetes_status :: "json \<Rightarrow> error + json" where
  "get_diabetes_status obj =
     seq (get_nested obj [ustr ''diabetes'', ustr ''status''] None) (\<lambda>v. Inr (py_or v (JStr [])))"

definition get_diabetes_a1c :: "json \<Rightarrow> error + json" where
  "get_diabetes_a1c obj =
     seq (get_nested obj [ustr ''diabetes'', ustr ''a1c_values''] (Some []))
       (\<lambda>v. Inr (JList (ensure_list v)))"

definition get_diabetes_glucose :: "json \<Rightarrow> error + json" where
  "get_diabetes_glucose obj =
     seq (get_nested obj [ustr ''diabetes'', ustr ''glucose_values''] (Some []))
       (\<lambda>v. Inr (JList (ensure_list v)))"

definition get_bp_status :: "json \<Rightarrow> error + json" where
  "get_bp_status obj =
     seq (get_nested obj [ustr ''blood_pressure'', ustr ''hypertension_status''] None)
       (\<lambda>v. Inr (py_or v (JStr [])))"

definition get_bp_readings :: "json \<Rightarrow> error + json" where
  "get_bp_readings obj =
     seq (get_nested obj [ustr ''blood_pressure'', ustr ''bp_readings''] (Some []))
       (\<lambda>v. Inr (JList (ensure_list v)))"

record metrics =
  n_samples :: nat
  diabetes_type_accuracy :: rat
  diabetes_status_accuracy :: rat
  diabetes_a1c_recall :: rat
  diabetes_glucose_recall :: rat
  bp_hypertension_status_accuracy :: rat
  bp_readings_recall :: rat

type_synonym metric_fn =
  "json list \<Rightarrow> json list \<Rightarrow> (json \<Rightarrow> error + json) \<Rightarrow> (json \<Rightarrow> error + json) \<Rightarrow> error + rat"

text \<open>
  The body of \<^verbatim>\<open>run_validation\<close>. The two module-level functions it calls,
  \<^verbatim>\<open>compute_exact_match_accuracy\<close> and \<^verbatim>\<open>compute_list_recall\<close>, are the
  parameters \<open>accuracy\<close> and \<open>recall\<close>, so that a theorem can say of a path through
  the body that it does not call them. The entries of the returned dict are evaluated in
  the order they are written.
\<close>

definition run_validation_with ::
  "metric_fn \<Rightarrow> metric_fn \<Rightarrow> (pystr \<Rightarrow> file_state) \<Rightarrow> pystr \<Rightarrow> pystr \<Rightarrow> error + metrics" where
  "run_validation_with accuracy recall fs gold_path extraction_path =
     seq (load_json fs gold_path) (\<lambda>gold_list.
     seq (load_json fs extraction_path) (\<lambda>pred_list.
       let n = min (length gold_list) (length pred_list)
       in if n = 0
          then Inr \<lparr>n_samples = 0,
                    diabetes_type_accuracy = 0,
                    diabetes_status_accuracy = 0,
                    diabetes_a1c_recall = 1,
                    diabetes_glucose_recall = 1,
                    bp_hypertension_status_accuracy = 0,
                    bp_readings_recall = 1\<rparr>
          else
            let gold_slice = take n gold_list;
                pred_slice = take n pred_list
            in
              seq (accuracy gold_slice pred_slice get_diabetes_type get_diabetes_type) (\<lambda>m1.
              seq (accuracy gold_slice pred_slice get_diabetes_status get_diabetes_status) (\<lambda>m2.
              seq (recall gold_slice pred_slice get_diabetes_a1c get_diabetes_a1c) (\<lambda>m3.
              seq (recall gold_slice pred_slice get_diabetes_glucose get_diabetes_glucose) (\<lambda>m4.
              seq (accuracy gold_slice pred_slice get_bp_status get_bp_status) (\<lambda>m5.
              seq (recall gold_slice pred_slice get_bp_readings get_bp_readings) (\<lambda>m6.
                Inr \<lparr>n_samples = n,
                     diabetes_type_accuracy = m1,
                     diabetes_status_accuracy = m2,
                     diabetes_a1c_recall = m3,
                     diabetes_glucose_recall = m4,
                     bp_hypertension_status_accuracy = m5,
                     bp_readings_recall = m6\<rparr>))))))))"

definition run_validation ::
  "(json \<Rightarrow> pystr) \<Rightarrow> (pystr \<Rightarrow> file_state) \<Rightarrow> pystr \<Rightarrow> pystr \<Rightarrow> error + metrics" where
  "run_validation repr fs gold_path extraction_path =
     run_validation_with (compute_exact_match_accuracy repr) (compute_list_recall repr)
       fs gold_path extraction_path"

section \<open>Report and entry point\<close>

text \<open>What \<^verbatim>\<open>print_report\<close> writes to standard output: the notice of the
  zero-sample branch, or the six metric lines (their text formatting is not modelled).\<close>

datatype report = NoSamples | MetricLines metrics

definition print_report :: "metrics \<Rightarrow> report" where
  "print_report m = (if n_samples m = 0 then NoSamples else MetricLines m)"

datatype err_line = Usage | ErrorLine error

record outcome =
  exit_code :: int
  stdout :: "report list"
  stderr :: "err_line list"

text \<open>The \<^verbatim>\<open>try\<close> statement of \<^verbatim>\<open>main\<close>; an exception that no
  \<^verbatim>\<open>except\<close> clause names leaves \<^verbatim>\<open>main\<close>.\<close>

definition try_report ::
  "(json \<Rightarrow> pystr) \<Rightarrow> (pystr \<Rightarrow> file_state) \<Rightarrow> pystr \<Rightarrow> pystr \<Rightarrow> error + outcome" where
  "try_report repr fs gold_path extraction_path =
     (case run_validation repr fs gold_path extraction_path of
        Inr m \<Rightarrow> Inr \<lparr>exit_code = 0, stdout = [print_report m], stderr = []\<rparr>
      | Inl e \<Rightarrow>
          (case e of
             FileNotFoundError p \<Rightarrow> Inr \<lparr>exit_code = 1, stdout = [], stderr = [ErrorLine e]\<rparr>
           | ValueError p \<Rightarrow> Inr \<lparr>exit_code = 1, stdout = [], stderr = [ErrorLine e]\<rparr>
           | JSONDecodeError p \<Rightarrow> Inr \<lparr>exit_code = 1, stdout = [], stderr = [ErrorLine e]\<rparr>
           | _ \<Rightarrow> Inl e))"

text \<open>\<^verbatim>\<open>main\<close>, with \<^verbatim>\<open>sys.argv\<close>, the two default paths of the module and
  the file system as parameters.\<close>

definition main ::
  "(json \<Rightarrow> pystr) \<Rightarrow> pystr \<Rightarrow> pystr \<Rightarrow> pystr list \<Rightarrow> (pystr \<Rightarrow> file_state) \<Rightarrow> error + outcome" where
  "main repr GOLD_PATH EXTRACTION_PATH argv fs =
     (if 3 \<le> length argv then try_report repr fs (argv ! 1) (argv ! 2)
      else if length argv = 2 then Inr \<lparr>exit_code = 1, stdout = [], stderr = [Usage]\<rparr>
      else try_report repr fs GOLD_PATH EXTRACTION_PATH)"

section \<open>Definitions that follow the specification's words\<close>

text \<open>The value at a path of keys: none as soon as a value on the way is not a mapping
  or lacks the key.\<close>

fun path_value :: "json \<Rightarrow> pystr list \<Rightarrow> json option" where
  "path_value v [] = Some v"
| "path_value (JDict kvs) (k # ks) =
     (case map_of kvs k of None \<Rightarrow> None | Some v \<Rightarrow> path_value v ks)"
| "path_value _ (k # ks) = None"

text \<open>Normalisation of a scalar: null or the empty string is the empty string, a string
  is stripped, any other value is stringified and stripped.\<close>

fun spec_normalize :: "(json \<Rightarrow> pystr) \<Rightarrow> json \<Rightarrow> pystr" where
  "spec_normalize repr JNull = []"
| "spec_normalize repr (JStr s) = (if s = [] then [] else strip s)"
| "spec_normalize repr v = strip (repr v)"

text \<open>The positions below \<open>n\<close> at which the aligned pair is correct.\<close>

definition correct_pairs ::
  "(json \<Rightarrow> pystr) \<Rightarrow> nat \<Rightarrow> 'a list \<Rightarrow> 'b list \<Rightarrow> ('a \<Rightarrow> json) \<Rightarrow> ('b \<Rightarrow> json) \<Rightarrow> nat list" where
  "correct_pairs repr n gold_list pred_list gg gp =
     filter (\<lambda>i. spec_normalize repr (gg (gold_list ! i)) = spec_normalize repr (gp (pred_list ! i)))
       [0 ..< n]"

text \<open>The stripped strings of a record's list, and the true positives and false
  negatives of one aligned pair of lists.\<close>

definition stripped :: "(json \<Rightarrow> pystr) \<Rightarrow> json list \<Rightarrow> pystr list" where
  "stripped repr items = map (\<lambda>x. strip (py_str repr x)) items"

definition record_tp :: "(json \<Rightarrow> pystr) \<Rightarrow> json \<Rightarrow> json \<Rightarrow> nat" where
  "record_tp repr g p =
     length (filter (\<lambda>s. s \<in> set (stripped repr (ensure_list p))) (stripped repr (ensure_list g)))"

definition record_fn :: "(json \<Rightarrow> pystr) \<Rightarrow> json \<Rightarrow> json \<Rightarrow> nat" where
  "record_fn repr g p =
     length (filter (\<lambda>s. s \<notin> set (stripped repr (ensure_list p))) (stripped repr (ensure_list g)))"

text \<open>Micro-averaged recall: the true positives and the false negatives are summed over
  all aligned pairs before the division; 1 when there is nothing to find.\<close>

definition total_tp :: "(json \<Rightarrow> pystr) \<Rightarrow> 'a list \<Rightarrow> 'b list \<Rightarrow> ('a \<Rightarrow> json) \<Rightarrow> ('b \<Rightarrow> json) \<Rightarrow> nat" where
  "total_tp repr gold_list pred_list gg gp =
     sum_list (map (\<lambda>(g, p). record_tp repr (gg g) (gp p)) (zip gold_list pred_list))"

definition total_fn :: "(json \<Rightarrow> pystr) \<Rightarrow> 'a list \<Rightarrow> 'b list \<Rightarrow> ('a \<Rightarrow> json) \<Rightarrow> ('b \<Rightarrow> json) \<Rightarrow> nat" where
  "total_fn repr gold_list pred_list gg gp =
     sum_list (map (\<lambda>(g, p). record_fn repr (gg g) (gp p)) (zip gold_list pred_list))"

definition micro_recall :: "(json \<Rightarrow> pystr) \<Rightarrow> 'a list \<Rightarrow> 'b list \<Rightarrow> ('a \<Rightarrow> json) \<Rightarrow> ('b \<Rightarrow> json) \<Rightarrow> rat" where
  "micro_recall repr gold_list pred_list gg gp =
     (if total_tp repr gold_list pred_list gg gp + total_fn repr gold_list pred_list gg gp = 0 then 1
      else of_nat (total_tp repr gold_list pred_list gg gp)
           / of_nat (total_tp repr gold_list pred_list gg gp + total_fn repr gold_list pred_list gg gp))"

text \<open>Macro-averaged recall, which the module does not compute: the mean of the recalls
  of the aligned pairs, each taken alone.\<close>

definition macro_recall :: "(json \<Rightarrow> pystr) \<Rightarrow> 'a list \<Rightarrow> 'b list \<Rightarrow> ('a \<Rightarrow> json) \<Rightarrow> ('b \<Rightarrow> json) \<Rightarrow> rat" where
  "macro_recall repr gold_list pred_list gg gp =
     sum_list (map (\<lambda>(g, p). micro_recall repr [g] [p] gg gp) (zip gold_list pred_list))
     / of_nat (length (zip gold_list pred_list))"

text \<open>The number of gold list items over all aligned pairs.\<close>

definition total_gold_items :: "'a list \<Rightarrow> 'b list \<Rightarrow> ('a \<Rightarrow> json) \<Rightarrow> nat" where
  "total_gold_items gold_list pred_list gg =
     sum_list (map (\<lambda>(g, p). length (ensure_list (gg g))) (zip gold_list pred_list))"

text \<open>What the specification allows an accessor to return: a string or a sequence of
  strings.\<close>

fun is_str :: "json \<Rightarrow> bool" where
  "is_str (JStr s) = True"
| "is_str _ = False"

fun str_or_str_seq :: "json \<Rightarrow> bool" where
  "str_or_str_seq (JStr s) = True"
| "str_or_str_seq (JList xs) = list_all is_str xs"
| "str_or_str_seq _ = False"

text \<open>What a scalar accessor and a list accessor of the validation run find at a path:
  the value there when it is truthy, the empty string otherwise; the list there, the empty
  list otherwise.\<close>

definition scalar_at :: "pystr list \<Rightarrow> json \<Rightarrow> json" where
  "scalar_at keys obj =
     (case path_value obj keys of None \<Rightarrow> JStr [] | Some v \<Rightarrow> if truthy v then v else JStr [])"

definition list_at :: "pystr list \<Rightarrow> json \<Rightarrow> json list" where
  "list_at keys obj = (case path_value obj keys of Some (JList xs) \<Rightarrow> xs | _ \<Rightarrow> [])"

text \<open>Records that hold, at a path, what a scalar accessor or a list accessor expects:
  a string, a falsy value or nothing for a scalar; a list of strings, or no list at all,
  for a list.\<close>

definition holds_scalar :: "pystr list \<Rightarrow> json \<Rightarrow> bool" where
  "holds_scalar keys obj =
     (case path_value obj keys of None \<Rightarrow> True | Some v \<Rightarrow> is_str v \<or> \<not> truthy v)"

definition holds_strings :: "pystr list \<Rightarrow> json \<Rightarrow> bool" where
  "holds_strings keys obj = list_all is_str (list_at keys obj)"

text \<open>The metrics of a run on the gold records \<open>gs\<close> and the prediction records
  \<open>ps\<close>, aligned by position and cut to the shorter length \<open>n\<close>: the accuracies count
  positions below \<open>n\<close>, the recalls range over the first \<open>n\<close> records of each.\<close>

definition spec_accuracy :: "(json \<Rightarrow> pystr) \<Rightarrow> nat \<Rightarrow> json list \<Rightarrow> json list \<Rightarrow> pystr list \<Rightarrow> rat" where
  "spec_accuracy repr n gs ps keys =
     (if n = 0 then 0
      else of_nat (length (correct_pairs repr n gs ps (scalar_at keys) (scalar_at keys))) / of_nat n)"

definition spec_recall :: "(json \<Rightarrow> pystr) \<Rightarrow> nat \<Rightarrow> json list \<Rightarrow> json list \<Rightarrow> pystr list \<Rightarrow> rat" where
  "spec_recall repr n gs ps keys =
     micro_recall repr (take n gs) (take n ps) (\<lambda>obj. JList (list_at keys obj))
       (\<lambda>obj. JList (list_at keys obj))"

definition spec_metrics :: "(json \<Rightarrow> pystr) \<Rightarrow> json list \<Rightarrow> json list \<Rightarrow> metrics" where
  "spec_metrics repr gs ps =
     (let n = min (length gs) (length ps)
      in \<lparr>n_samples = n,
          diabetes_type_accuracy = spec_accuracy repr n gs ps [ustr ''diabetes'', ustr ''type''],
          diabetes_status_accuracy = spec_accuracy repr n gs ps [ustr ''diabetes'', ustr ''status''],
          diabetes_a1c_recall = spec_recall repr n gs ps [ustr ''diabetes'', ustr ''a1c_values''],
          diabetes_glucose_recall = spec_recall repr n gs ps [ustr ''diabetes'', ustr ''glucose_values''],
          bp_hypertension_status_accuracy =
            spec_accuracy repr n gs ps [ustr ''blood_pressure'', ustr ''hypertension_status''],
          bp_readings_recall = spec_recall repr n gs ps [ustr ''blood_pressure'', ustr ''bp_readings'']\<rparr>)"

text \<open>The mapping that \<^verbatim>\<open>run_validation\<close> returns for zero samples.\<close>

definition zero_metrics :: metrics where
  "zero_metrics =
     \<lparr>n_samples = 0,
      diabetes_type_accuracy = 0,
      diabetes_status_accuracy = 0,
      diabetes_a1c_recall = 1,
      diabetes_glucose_recall = 1,
      bp_hypertension_status_accuracy = 0,
      bp_readings_recall = 1\<rparr>"

section \<open>Sample inputs\<close>

text \<open>Three gold records and two prediction records, and a file system that holds
  them, a document that is no list, and nothing else.\<close>

definition sample_gold :: "json list" where
  "sample_gold =
     [JDict [(ustr ''diabetes'',
        JDict [(ustr ''type'', JStr (ustr ''T2'')),
               (ustr ''a1c_values'', JList [JStr (ustr ''7.2%''), JStr (ustr ''8.1%'')])])],
      JDict [(ustr ''blood_pressure'', JDict [(ustr ''hypertension_status'', JStr (ustr ''present''))])],
      JDict [(ustr ''diabetes'', JDict [(ustr ''type'', JStr (ustr ''T1''))])]]"

definition sample_pred :: "json list" where
  "sample_pred =
     [JDict [(ustr ''diabetes'',
        JDict [(ustr ''type'', JStr (ustr '' T2'')),
               (ustr ''a1c_values'', JList [JStr (ustr ''7.2%'')])])],
      JDict []]"

definition sample_fs :: "pystr \<Rightarrow> file_state" where
  "sample_fs path =
     (if path = ustr ''gold.json'' then Parsed (JList sample_gold)
      else if path = ustr ''pred.json'' then Parsed (JList sample_pred)
      else if path = ustr ''empty.json'' then Parsed (JList [])
      else if path = ustr ''object.json'' then Parsed (JDict [])
      else Absent)"

section \<open>Lemmas on the loops\<close>

lemma seq_Inr: "seq (Inr x) f = f x"
  by (simp add: seq_def)

lemma seq_Inl: "seq (Inl e) f = Inl e"
  by (simp add: seq_def)

lemma norm_scalar_spec: "norm_scalar repr v = spec_normalize repr v"
  by (cases v) (simp_all add: norm_scalar_def py_str_def strip_def)

lemma exact_loop_pure:
  "exact_loop repr (\<lambda>x. Inr (gg x)) (\<lambda>x. Inr (gp x)) zs c =
     Inr (c + length (filter (\<lambda>(g, p). spec_normalize repr (gg g) = spec_normalize repr (gp p)) zs))"
  by (induction zs arbitrary: c) (auto simp: seq_Inr norm_scalar_spec)

lemma filter_zip_nth:
  "length (filter (\<lambda>(g, p). P g p) (zip xs ys)) =
     length (filter (\<lambda>i. P (xs ! i) (ys ! i)) [0 ..< min (length xs) (length ys)])"
proof -
  have "zip xs ys = map (\<lambda>i. (xs ! i, ys ! i)) [0 ..< min (length xs) (length ys)]"
    by (rule nth_equalityI) auto
  then have "filter (\<lambda>(g, p). P g p) (zip xs ys) =
      map (\<lambda>i. (xs ! i, ys ! i)) (filter (\<lambda>i. P (xs ! i) (ys ! i)) [0 ..< min (length xs) (length ys)])"
    by (simp add: filter_map o_def)
  then show ?thesis by simp
qed

lemma exact_pure:
  "compute_exact_match_accuracy repr gold_list pred_list (\<lambda>x. Inr (gg x)) (\<lambda>x. Inr (gp x)) =
     Inr (if gold_list = [] then 0
          else of_nat (length (correct_pairs repr (min (length gold_list) (length pred_list))
                                 gold_list pred_list gg gp))
               / of_nat (length gold_list))"
  by (simp add: compute_exact_match_accuracy_def exact_loop_pure seq_Inr truediv_def
      correct_pairs_def filter_zip_nth [where P = "\<lambda>g p. spec_normalize repr (gg g) = spec_normalize repr (gp p)"])

lemma upt_0_2: "[0 ..< 2] = [0, 1]"
  by (simp add: eval_nat_numeral upt_rec)

lemma upt_0_3: "[0 ..< 3] = [0, 1, 2]"
  by (simp add: eval_nat_numeral upt_rec)

lemma recall_items_count:
  "recall_items repr g_items p_items (tp, fn) =
     (tp + length (filter (\<lambda>s. s \<in> set (stripped repr p_items)) (stripped repr g_items)),
      fn + length (filter (\<lambda>s. s \<notin> set (stripped repr p_items)) (stripped repr g_items)))"
  by (induction g_items arbitrary: tp fn) (simp_all add: stripped_def Let_def)

lemma recall_loop_pure:
  "recall_loop repr (\<lambda>x. Inr (gg x)) (\<lambda>x. Inr (gp x)) zs (tp, fn) =
     Inr (tp + sum_list (map (\<lambda>(g, p). record_tp repr (gg g) (gp p)) zs),
          fn + sum_list (map (\<lambda>(g, p). record_fn repr (gg g) (gp p)) zs))"
  by (induction zs arbitrary: tp fn)
     (auto simp: seq_Inr recall_items_count record_tp_def record_fn_def)

lemma recall_pure:
  "compute_list_recall repr gold_list pred_list (\<lambda>x. Inr (gg x)) (\<lambda>x. Inr (gp x)) =
     Inr (micro_recall repr gold_list pred_list gg gp)"
  by (simp add: compute_list_recall_def recall_loop_pure seq_Inr micro_recall_def total_tp_def
      total_fn_def truediv_def Let_def)

lemma length_stripped: "length (stripped repr items) = length items"
  by (simp add: stripped_def)

lemma record_tp_fn: "record_tp repr g p + record_fn repr g p = length (ensure_list g)"
  unfolding record_tp_def record_fn_def
  by (simp only: sum_length_filter_compl length_stripped)

lemma total_tp_fn:
  "total_tp repr gold_list pred_list gg gp + total_fn repr gold_list pred_list gg gp =
     total_gold_items gold_list pred_list gg"
proof -
  have "sum_list (map (\<lambda>(g, p). record_tp repr (gg g) (gp p)) zs)
        + sum_list (map (\<lambda>(g, p). record_fn repr (gg g) (gp p)) zs)
        = sum_list (map (\<lambda>(g, p). length (ensure_list (gg g))) zs)" for zs :: "('a \<times> 'b) list"
  proof (induction zs)
    case Nil
    then show ?case by simp
  next
    case (Cons z zs)
    obtain g p where z: "z = (g, p)" by (cases z)
    with Cons record_tp_fn [of repr "gg g" "gp p"] show ?case by simp
  qed
  then show ?thesis
    by (simp add: total_tp_def total_fn_def total_gold_items_def)
qed

lemma recall_items_set:
  assumes "set (stripped repr p_items) = set (stripped repr p_items')"
  shows "recall_items repr g_items p_items acc = recall_items repr g_items p_items' acc"
  using assms by (cases acc) (simp add: recall_items_count)

lemma stripped_mset:
  assumes "mset p_items = mset p_items'"
  shows "set (stripped repr p_items) = set (stripped repr p_items')"
proof -
  from assms have "set p_items = set p_items'"
    by (rule mset_eq_setD)
  then show ?thesis
    by (simp add: stripped_def)
qed

lemma recall_loop_perm:
  assumes "list_all2 (\<lambda>p p'. mset (ensure_list (gp p)) = mset (ensure_list (gp p'))) pred_list pred_list'"
  shows "recall_loop repr getter_gold (\<lambda>x. Inr (gp x)) (zip gold_list pred_list) totals =
         recall_loop repr getter_gold (\<lambda>x. Inr (gp x)) (zip gold_list pred_list') totals"
  using assms
proof (induction pred_list pred_list' arbitrary: gold_list totals rule: list_all2_induct)
  case Nil
  then show ?case by simp
next
  case (Cons p ps p' ps')
  show ?case
  proof (cases gold_list)
    case Nil
    then show ?thesis by simp
  next
    case (Cons g gs)
    have "recall_items repr items (ensure_list (gp p)) totals =
          recall_items repr items (ensure_list (gp p')) totals" for items
      using Cons.hyps(1) by (intro recall_items_set stripped_mset)
    then show ?thesis
      using Cons Cons.IH by (cases "getter_gold g") (simp_all add: seq_Inr seq_Inl)
  qed
qed

section \<open>Lemmas on the field accessor\<close>

lemma walk_path_value: "walk obj keys = Inr (path_value obj keys)"
proof (induction keys arbitrary: obj)
  case Nil
  then show ?case by simp
next
  case (Cons key keys)
  show ?case
  proof (cases obj)
    case (JDict kvs)
    show ?thesis
    proof (cases "map_of kvs key")
      case None
      then have "key \<notin> fst ` set kvs"
        by (simp add: map_of_eq_None_iff)
      with None JDict show ?thesis by simp
    next
      case (Some v)
      then have "key \<in> fst ` set kvs"
        by (metis map_of_eq_None_iff option.distinct(1))
      with Some JDict Cons.IH show ?thesis by (simp add: seq_Inr)
    qed
  qed simp_all
qed

lemma get_nested_eq:
  "get_nested obj keys default_list =
     Inr (case path_value obj keys of
            None \<Rightarrow> if default_list \<noteq> None then JList [] else JStr []
          | Some v \<Rightarrow>
              if default_list \<noteq> None then (if is_list v then v else JList [])
              else (if v = JNull then JStr [] else v))"
proof (cases "path_value obj keys")
  case None
  then show ?thesis
    by (simp add: get_nested_def walk_path_value seq_Inr)
next
  case (Some v)
  then show ?thesis
    by (cases v) (simp_all add: get_nested_def walk_path_value seq_Inr)
qed

lemma scalar_getter: "seq (get_nested obj keys None) (\<lambda>v. Inr (py_or v (JStr []))) = Inr (scalar_at keys obj)"
  by (simp add: get_nested_eq seq_Inr scalar_at_def py_or_def split: option.split)

lemma list_getter:
  "seq (get_nested obj keys (Some [])) (\<lambda>v. Inr (JList (ensure_list v))) = Inr (JList (list_at keys obj))"
proof (cases "path_value obj keys")
  case None
  then show ?thesis
    by (simp add: get_nested_eq seq_Inr list_at_def)
next
  case (Some v)
  then show ?thesis
    by (cases v) (simp_all add: get_nested_eq seq_Inr list_at_def)
qed

section \<open>Lemmas on the validation run\<close>

lemma scalar_getters:
  "get_diabetes_type = (\<lambda>obj. Inr (scalar_at [ustr ''diabetes'', ustr ''type''] obj))"
  "get_diabetes_status = (\<lambda>obj. Inr (scalar_at [ustr ''diabetes'', ustr ''status''] obj))"
  "get_bp_status = (\<lambda>obj. Inr (scalar_at [ustr ''blood_pressure'', ustr ''hypertension_status''] obj))"
  by (rule ext, simp only: get_diabetes_type_def get_diabetes_status_def get_bp_status_def
      scalar_getter)+

lemma list_getters:
  "get_diabetes_a1c = (\<lambda>obj. Inr (JList (list_at [ustr ''diabetes'', ustr ''a1c_values''] obj)))"
  "get_diabetes_glucose = (\<lambda>obj. Inr (JList (list_at [ustr ''diabetes'', ustr ''glucose_values''] obj)))"
  "get_bp_readings = (\<lambda>obj. Inr (JList (list_at [ustr ''blood_pressure'', ustr ''bp_readings''] obj)))"
  by (rule ext, simp only: get_diabetes_a1c_def get_diabetes_glucose_def get_bp_readings_def
      list_getter)+

lemma correct_pairs_take:
  assumes "n \<le> length gs" and "n \<le> length ps"
  shows "correct_pairs repr n (take n gs) (take n ps) gg gp = correct_pairs repr n gs ps gg gp"
  unfolding correct_pairs_def by (rule filter_cong) simp_all

lemma accuracy_slices:
  assumes "n = min (length gs) (length ps)" and "n \<noteq> 0"
  shows "compute_exact_match_accuracy repr (take n gs) (take n ps)
           (\<lambda>obj. Inr (scalar_at keys obj)) (\<lambda>obj. Inr (scalar_at keys obj)) =
         Inr (spec_accuracy repr n gs ps keys)"
proof -
  from assms have le: "n \<le> length gs" "n \<le> length ps" and ne: "take n gs \<noteq> []"
    by auto
  from le have len: "length (take n gs) = n" "length (take n ps) = n"
    by simp_all
  show ?thesis
    by (simp only: exact_pure len min.idem ne assms(2) correct_pairs_take [OF le]
        spec_accuracy_def if_False)
qed

lemma run_validation_loaded:
  assumes "load_json fs gold_path = Inr gs" and "load_json fs extraction_path = Inr ps"
  shows "run_validation repr fs gold_path extraction_path = Inr (spec_metrics repr gs ps)"
proof (cases "min (length gs) (length ps) = 0")
  case True
  then have "spec_metrics repr gs ps = zero_metrics"
    by (simp add: spec_metrics_def zero_metrics_def spec_accuracy_def spec_recall_def
        micro_recall_def total_tp_def total_fn_def)
  with True assms show ?thesis
    by (simp add: run_validation_def run_validation_with_def seq_Inr zero_metrics_def)
next
  case False
  define n where "n = min (length gs) (length ps)"
  with False have n: "n = min (length gs) (length ps)" "n \<noteq> 0"
    by simp_all
  have "run_validation repr fs gold_path extraction_path =
      Inr \<lparr>n_samples = n,
          diabetes_type_accuracy = spec_accuracy repr n gs ps [ustr ''diabetes'', ustr ''type''],
          diabetes_status_accuracy = spec_accuracy repr n gs ps [ustr ''diabetes'', ustr ''status''],
          diabetes_a1c_recall = spec_recall repr n gs ps [ustr ''diabetes'', ustr ''a1c_values''],
          diabetes_glucose_recall = spec_recall repr n gs ps [ustr ''diabetes'', ustr ''glucose_values''],
          bp_hypertension_status_accuracy =
            spec_accuracy repr n gs ps [ustr ''blood_pressure'', ustr ''hypertension_status''],
          bp_readings_recall = spec_recall repr n gs ps [ustr ''blood_pressure'', ustr ''bp_readings'']\<rparr>"
    using n(2)
    by (simp add: run_validation_def run_validation_with_def assms seq_Inr Let_def n(1) [symmetric]
        scalar_getters list_getters accuracy_slices [OF n] recall_pure spec_recall_def)
  then show ?thesis
    by (simp add: spec_metrics_def n(1) Let_def)
qed

section \<open>Exact-match accuracy\<close>

text \<open>
  Claim C1. On two record sequences of equal length, with getters that return a value,
  \<^verbatim>\<open>compute_exact_match_accuracy\<close> returns 0 when the sequences are empty; otherwise
  it returns the number of positions whose two getter values have equal normalised
  strings, divided by the number of pairs. The normalised string is \<open>spec_normalize\<close>:
  empty for \<^verbatim>\<open>None\<close> and for the empty string, the stripped string of any other
  value; strings are compared code point by code point.
\<close>

theorem exact_match_accuracy_equal_length:
  assumes "length gold_list = length pred_list"
  shows "compute_exact_match_accuracy repr gold_list pred_list (\<lambda>x. Inr (gg x)) (\<lambda>x. Inr (gp x)) =
           Inr (if gold_list = [] then 0
                else of_nat (length (correct_pairs repr (length gold_list) gold_list pred_list gg gp))
                     / of_nat (length gold_list))"
  using assms by (simp add: exact_pure)

theorem exact_match_accuracy_equal_length_witness:
  "length [JStr (ustr '' a''), JNull, JStr (ustr ''x'')]
     = length [JStr (ustr ''a ''), JStr [], JStr (ustr ''X'')]
   \<and> compute_exact_match_accuracy (\<lambda>v. ustr ''None'')
       [JStr (ustr '' a''), JNull, JStr (ustr ''x'')]
       [JStr (ustr ''a ''), JStr [], JStr (ustr ''X'')] (\<lambda>x. Inr x) (\<lambda>x. Inr x) = Inr (2 / 3)"
  using exact_match_accuracy_equal_length
    [of "[JStr (ustr '' a''), JNull, JStr (ustr ''x'')]"
        "[JStr (ustr ''a ''), JStr [], JStr (ustr ''X'')]" "\<lambda>v. ustr ''None''" "\<lambda>x. x" "\<lambda>x. x"]
  by (simp add: correct_pairs_def upt_0_3 ustr_def strip_def isspace_def)

text \<open>
  Claim C9. Called with a prediction sequence shorter than the gold sequence,
  \<^verbatim>\<open>compute_exact_match_accuracy\<close> compares only the pairs below the length of the
  prediction sequence and divides their number of matches by the length of the gold
  sequence, so a gold record without a partner never counts as correct; with no
  prediction at all the result is 0, whatever the getters are.
\<close>

theorem exact_match_accuracy_short_pred:
  assumes "length pred_list < length gold_list"
  shows "compute_exact_match_accuracy repr gold_list pred_list (\<lambda>x. Inr (gg x)) (\<lambda>x. Inr (gp x)) =
           Inr (of_nat (length (correct_pairs repr (length pred_list) gold_list pred_list gg gp))
                / of_nat (length gold_list))
         \<and> length (correct_pairs repr (length pred_list) gold_list pred_list gg gp) \<le> length pred_list
         \<and> compute_exact_match_accuracy repr gold_list ([] :: 'b list) getter_gold getter_pred = Inr 0"
proof -
  from assms have ne: "gold_list \<noteq> []" and m: "min (length gold_list) (length pred_list) = length pred_list"
    by auto
  have a: "compute_exact_match_accuracy repr gold_list pred_list (\<lambda>x. Inr (gg x)) (\<lambda>x. Inr (gp x)) =
      Inr (of_nat (length (correct_pairs repr (length pred_list) gold_list pred_list gg gp))
           / of_nat (length gold_list))"
    using ne by (simp add: exact_pure m)
  have "length (filter P [0 ..< length pred_list]) \<le> length [0 ..< length pred_list]" for P :: "nat \<Rightarrow> bool"
    by (rule length_filter_le)
  then have b: "length (correct_pairs repr (length pred_list) gold_list pred_list gg gp) \<le> length pred_list"
    by (simp add: correct_pairs_def)
  have c: "compute_exact_match_accuracy repr gold_list ([] :: 'b list) getter_gold getter_pred = Inr 0"
    using ne by (simp add: compute_exact_match_accuracy_def seq_Inr truediv_def)
  from a b c show ?thesis by simp
qed

theorem exact_match_accuracy_short_pred_witness:
  "length [JStr (ustr ''a ''), JStr []] < length [JStr (ustr '' a''), JNull, JStr (ustr ''x'')]
   \<and> compute_exact_match_accuracy (\<lambda>v. ustr ''None'')
       [JStr (ustr '' a''), JNull, JStr (ustr ''x'')]
       [JStr (ustr ''a ''), JStr []] (\<lambda>x. Inr x) (\<lambda>x. Inr x) = Inr (2 / 3)
   \<and> compute_exact_match_accuracy (\<lambda>v. ustr ''None'')
       [JStr (ustr '' a''), JNull, JStr (ustr ''x'')]
       ([] :: json list) (\<lambda>x. Inr x) (\<lambda>x. Inr x) = Inr 0"
  using exact_match_accuracy_short_pred
    [of "[JStr (ustr ''a ''), JStr []]"
        "[JStr (ustr '' a''), JNull, JStr (ustr ''x'')]" "\<lambda>v. ustr ''None''" "\<lambda>x. x" "\<lambda>x. x"
        "\<lambda>x. Inr x" "\<lambda>x. Inr x"]
  by (simp add: correct_pairs_def upt_0_2 ustr_def strip_def isspace_def)

section \<open>List recall\<close>

text \<open>
  Claim C2. \<^verbatim>\<open>compute_list_recall\<close> is micro-averaged: with getters that return a
  value, its result is the sum of the true positives of all aligned pairs divided by the
  sum of their true positives and false negatives. For the two records with gold
  \<open>[a, b]\<close>, prediction \<open>[a]\<close> and gold \<open>[c]\<close>, prediction \<open>[c]\<close> the result is
  2/3, while the mean of the two per-record recalls is 3/4.
\<close>

theorem list_recall_micro_averaged:
  "compute_list_recall repr gold_list pred_list (\<lambda>x. Inr (gg x)) (\<lambda>x. Inr (gp x)) =
     Inr (micro_recall repr gold_list pred_list gg gp)
   \<and> compute_list_recall repr
       [JList [JStr (ustr ''a''), JStr (ustr ''b'')], JList [JStr (ustr ''c'')]]
       [JList [JStr (ustr ''a'')], JList [JStr (ustr ''c'')]] (\<lambda>x. Inr x) (\<lambda>x. Inr x) = Inr (2 / 3)
   \<and> macro_recall repr
       [JList [JStr (ustr ''a''), JStr (ustr ''b'')], JList [JStr (ustr ''c'')]]
       [JList [JStr (ustr ''a'')], JList [JStr (ustr ''c'')]] (\<lambda>x. x) (\<lambda>x. x) = 3 / 4"
proof -
  have ex: "micro_recall repr
       [JList [JStr (ustr ''a''), JStr (ustr ''b'')], JList [JStr (ustr ''c'')]]
       [JList [JStr (ustr ''a'')], JList [JStr (ustr ''c'')]] (\<lambda>x. x) (\<lambda>x. x) = 2 / 3"
    by (simp add: micro_recall_def total_tp_def total_fn_def record_tp_def record_fn_def
        stripped_def py_str_def ustr_def strip_def isspace_def)
  have "macro_recall repr
       [JList [JStr (ustr ''a''), JStr (ustr ''b'')], JList [JStr (ustr ''c'')]]
       [JList [JStr (ustr ''a'')], JList [JStr (ustr ''c'')]] (\<lambda>x. x) (\<lambda>x. x) = 3 / 4"
    by (simp add: macro_recall_def micro_recall_def total_tp_def total_fn_def record_tp_def
        record_fn_def stripped_def py_str_def ustr_def strip_def isspace_def)
  with ex show ?thesis
    by (simp only: recall_pure)
qed

text \<open>
  Claim C3. When the aligned records hold no gold list item at all (each gold list field
  is empty, missing or not a list), \<^verbatim>\<open>compute_list_recall\<close> returns 1, whatever the
  predicted lists hold.
\<close>

theorem list_recall_no_gold_items:
  assumes "total_gold_items gold_list pred_list gg = 0"
  shows "compute_list_recall repr gold_list pred_list (\<lambda>x. Inr (gg x)) (\<lambda>x. Inr (gp x)) = Inr 1"
proof -
  from assms have "total_tp repr gold_list pred_list gg gp + total_fn repr gold_list pred_list gg gp = 0"
    by (simp only: total_tp_fn)
  then show ?thesis
    by (simp add: recall_pure micro_recall_def)
qed

theorem list_recall_no_gold_items_witness:
  "total_gold_items [JList [], JNull, JStr (ustr ''7.2%'')]
     [JList [JStr (ustr ''7.2%'')], JList [JStr (ustr ''8.1%''), JNull], JNull] (\<lambda>x. x) = 0
   \<and> compute_list_recall (\<lambda>v. ustr ''None'') [JList [], JNull, JStr (ustr ''7.2%'')]
       [JList [JStr (ustr ''7.2%'')], JList [JStr (ustr ''8.1%''), JNull], JNull]
       (\<lambda>x. Inr x) (\<lambda>x. Inr x) = Inr 1"
  using list_recall_no_gold_items
    [of "[JList [], JNull, JStr (ustr ''7.2%'')]"
        "[JList [JStr (ustr ''7.2%'')], JList [JStr (ustr ''8.1%''), JNull], JNull]"
        "\<lambda>x. x" "\<lambda>v. ustr ''None''" "\<lambda>x. x"]
  by (simp add: total_gold_items_def)

text \<open>
  Claim C8. \<^verbatim>\<open>compute_list_recall\<close> does not depend on the order of the items of a
  predicted list: when each prediction record's list is replaced by a permutation of it,
  the result is the same (the same value, or the same exception of the gold getter). A
  gold item is a true positive exactly when its stripped string is among the stripped
  strings of the record's predicted list.
\<close>

theorem list_recall_pred_permutation:
  assumes "list_all2 (\<lambda>p p'. mset (ensure_list (gp p)) = mset (ensure_list (gp p'))) pred_list pred_list'"
  shows "compute_list_recall repr gold_list pred_list getter_gold (\<lambda>x. Inr (gp x)) =
           compute_list_recall repr gold_list pred_list' getter_gold (\<lambda>x. Inr (gp x))
         \<and> recall_items repr [g_item] p_items (tp, fn) =
             (if strip (py_str repr g_item) \<in> set (stripped repr p_items)
              then (tp + 1, fn) else (tp, fn + 1))"
proof -
  have "recall_loop repr getter_gold (\<lambda>x. Inr (gp x)) (zip gold_list pred_list) (0, 0) =
        recall_loop repr getter_gold (\<lambda>x. Inr (gp x)) (zip gold_list pred_list') (0, 0)"
    using assms by (rule recall_loop_perm)
  then have "compute_list_recall repr gold_list pred_list getter_gold (\<lambda>x. Inr (gp x)) =
      compute_list_recall repr gold_list pred_list' getter_gold (\<lambda>x. Inr (gp x))"
    by (simp only: compute_list_recall_def)
  then show ?thesis
    by (simp add: stripped_def)
qed

theorem list_recall_pred_permutation_witness:
  "list_all2 (\<lambda>p p'. mset (ensure_list p) = mset (ensure_list p'))
     [JList [JStr (ustr ''a''), JStr (ustr ''b'')]] [JList [JStr (ustr ''b''), JStr (ustr ''a'')]]
   \<and> compute_list_recall (\<lambda>v. ustr ''None'') [JList [JStr (ustr ''b''), JStr (ustr ''c'')]]
       [JList [JStr (ustr ''a''), JStr (ustr ''b'')]] (\<lambda>x. Inr x) (\<lambda>x. Inr x) = Inr (1 / 2)
   \<and> compute_list_recall (\<lambda>v. ustr ''None'') [JList [JStr (ustr ''b''), JStr (ustr ''c'')]]
       [JList [JStr (ustr ''b''), JStr (ustr ''a'')]] (\<lambda>x. Inr x) (\<lambda>x. Inr x) = Inr (1 / 2)"
proof -
  have h: "list_all2 (\<lambda>p p'. mset (ensure_list p) = mset (ensure_list p'))
     [JList [JStr (ustr ''a''), JStr (ustr ''b'')]] [JList [JStr (ustr ''b''), JStr (ustr ''a'')]]"
    by (simp add: add_mset_commute)
  have v: "compute_list_recall (\<lambda>v. ustr ''None'') [JList [JStr (ustr ''b''), JStr (ustr ''c'')]]
       [JList [JStr (ustr ''a''), JStr (ustr ''b'')]] (\<lambda>x. Inr x) (\<lambda>x. Inr x) = Inr (1 / 2)"
    by (simp add: compute_list_recall_def seq_Inr truediv_def py_str_def ustr_def strip_def
        isspace_def)
  from list_recall_pred_permutation [where gp = "\<lambda>x. x", OF h, of "\<lambda>v. ustr ''None''"
      "[JList [JStr (ustr ''b''), JStr (ustr ''c'')]]" "\<lambda>x. Inr x"] h v
  show ?thesis by simp
qed

section \<open>Field accessor\<close>

text \<open>
  Claim C4. For every record, path of keys and want-list flag, \<^verbatim>\<open>_get_nested\<close>
  returns the typed default (the empty string, or the empty list when a list is wanted)
  when the path does not resolve, that is when a value on the way is not a mapping or
  lacks the key; it returns the empty list when a list is wanted and the value at the
  path is not a list; and it never raises.
\<close>

theorem get_nested_defaults:
  "(path_value obj keys = None \<longrightarrow>
      get_nested obj keys default_list = Inr (if default_list = None then JStr [] else JList []))
   \<and> (\<forall>v. default_list \<noteq> None \<and> path_value obj keys = Some v \<and> \<not> is_list v \<longrightarrow>
          get_nested obj keys default_list = Inr (JList []))
   \<and> (\<exists>v. get_nested obj keys default_list = Inr v)"
  by (simp add: get_nested_eq)

theorem get_nested_defaults_witness:
  "path_value (JDict [(ustr ''diabetes'', JDict [(ustr ''type'', JStr (ustr ''T2''))])])
     [ustr ''diabetes'', ustr ''type'', ustr ''x''] = None
   \<and> get_nested (JDict [(ustr ''diabetes'', JDict [(ustr ''type'', JStr (ustr ''T2''))])])
       [ustr ''diabetes'', ustr ''type'', ustr ''x''] None = Inr (JStr [])
   \<and> path_value (JDict [(ustr ''diabetes'', JDict [(ustr ''type'', JStr (ustr ''T2''))])])
       [ustr ''diabetes'', ustr ''type''] = Some (JStr (ustr ''T2''))
   \<and> get_nested (JDict [(ustr ''diabetes'', JDict [(ustr ''type'', JStr (ustr ''T2''))])])
       [ustr ''diabetes'', ustr ''type''] (Some []) = Inr (JList [])"
  using
    get_nested_defaults
      [of "JDict [(ustr ''diabetes'', JDict [(ustr ''type'', JStr (ustr ''T2''))])]"
          "[ustr ''diabetes'', ustr ''type'', ustr ''x'']" None]
    get_nested_defaults
      [of "JDict [(ustr ''diabetes'', JDict [(ustr ''type'', JStr (ustr ''T2''))])]"
          "[ustr ''diabetes'', ustr ''type'']" "Some []"]
  by (simp add: ustr_def)

text \<open>
  Claim C5, as the specification states it: every accessor of the validation run returns
  a string or a sequence of strings. The scalar accessor returns the integer it finds at
  the path, and the list accessor returns the list it finds with its items unchanged.
\<close>

theorem accessor_result_not_string_counterexample:
  "get_diabetes_type (JDict [(ustr ''diabetes'', JDict [(ustr ''type'', JInt 5)])]) = Inr (JInt 5)
   \<and> \<not> str_or_str_seq (JInt 5)
   \<and> get_diabetes_a1c (JDict [(ustr ''diabetes'', JDict [(ustr ''a1c_values'', JList [JInt 7])])])
       = Inr (JList [JInt 7])
   \<and> \<not> str_or_str_seq (JList [JInt 7])"
  by (simp add: get_diabetes_type_def get_diabetes_a1c_def scalar_getter list_getter scalar_at_def
      list_at_def ustr_def)

text \<open>
  Claim C5, amended. For every input record each of the six accessors of the validation
  run returns a value and never raises, whatever keys are missing. A scalar accessor
  returns a string whenever the value at its path is a string, is falsy or is absent. A
  list accessor always returns a list, and that list is a sequence of strings whenever
  the list at its path, if there is one, holds only strings.
\<close>

theorem accessors_total:
  "(\<exists>v. get_diabetes_type obj = Inr v)
   \<and> (\<exists>v. get_diabetes_status obj = Inr v)
   \<and> (\<exists>v. get_bp_status obj = Inr v)
   \<and> (\<exists>xs. get_diabetes_a1c obj = Inr (JList xs))
   \<and> (\<exists>xs. get_diabetes_glucose obj = Inr (JList xs))
   \<and> (\<exists>xs. get_bp_readings obj = Inr (JList xs))
   \<and> (holds_scalar [ustr ''diabetes'', ustr ''type''] obj \<longrightarrow>
        (\<exists>s. get_diabetes_type obj = Inr (JStr s)))
   \<and> (holds_scalar [ustr ''diabetes'', ustr ''status''] obj \<longrightarrow>
        (\<exists>s. get_diabetes_status obj = Inr (JStr s)))
   \<and> (holds_scalar [ustr ''blood_pressure'', ustr ''hypertension_status''] obj \<longrightarrow>
        (\<exists>s. get_bp_status obj = Inr (JStr s)))
   \<and> (holds_strings [ustr ''diabetes'', ustr ''a1c_values''] obj \<longrightarrow>
        (\<exists>v. get_diabetes_a1c obj = Inr v \<and> str_or_str_seq v))
   \<and> (holds_strings [ustr ''diabetes'', ustr ''glucose_values''] obj \<longrightarrow>
        (\<exists>v. get_diabetes_glucose obj = Inr v \<and> str_or_str_seq v))
   \<and> (holds_strings [ustr ''blood_pressure'', ustr ''bp_readings''] obj \<longrightarrow>
        (\<exists>v. get_bp_readings obj = Inr v \<and> str_or_str_seq v))"
proof -
  have sc: "\<exists>s. scalar_at keys obj = JStr s" if "holds_scalar keys obj" for keys
  proof (cases "path_value obj keys")
    case None
    then show ?thesis by (simp add: scalar_at_def)
  next
    case (Some v)
    with that show ?thesis by (cases v) (auto simp: scalar_at_def holds_scalar_def)
  qed
  show ?thesis
    by (simp add: scalar_getters list_getters sc holds_strings_def)
qed

theorem accessors_total_witness:
  "holds_scalar [ustr ''diabetes'', ustr ''type''] (sample_gold ! 0)
   \<and> get_diabetes_type (sample_gold ! 0) = Inr (JStr (ustr ''T2''))
   \<and> holds_scalar [ustr ''diabetes'', ustr ''status''] (sample_gold ! 0)
   \<and> get_diabetes_status (sample_gold ! 0) = Inr (JStr [])
   \<and> holds_strings [ustr ''diabetes'', ustr ''a1c_values''] (sample_gold ! 0)
   \<and> get_diabetes_a1c (sample_gold ! 0) = Inr (JList [JStr (ustr ''7.2%''), JStr (ustr ''8.1%'')])
   \<and> holds_strings [ustr ''blood_pressure'', ustr ''bp_readings''] (sample_gold ! 0)
   \<and> get_bp_readings (sample_gold ! 0) = Inr (JList [])"
proof -
  have "holds_scalar [ustr ''diabetes'', ustr ''type''] (sample_gold ! 0)"
    and "holds_scalar [ustr ''diabetes'', ustr ''status''] (sample_gold ! 0)"
    and "holds_strings [ustr ''diabetes'', ustr ''a1c_values''] (sample_gold ! 0)"
    and "holds_strings [ustr ''blood_pressure'', ustr ''bp_readings''] (sample_gold ! 0)"
    and "get_diabetes_type (sample_gold ! 0) = Inr (JStr (ustr ''T2''))"
    and "get_diabetes_status (sample_gold ! 0) = Inr (JStr [])"
    and "get_diabetes_a1c (sample_gold ! 0) = Inr (JList [JStr (ustr ''7.2%''), JStr (ustr ''8.1%'')])"
    and "get_bp_readings (sample_gold ! 0) = Inr (JList [])"
    by (simp_all add: holds_scalar_def holds_strings_def scalar_getters list_getters scalar_at_def
        list_at_def sample_gold_def ustr_def)
  with accessors_total [of "sample_gold ! 0"] show ?thesis
    by simp
qed

section \<open>The validation run\<close>

text \<open>
  Claim C6. When both files hold a list, \<^verbatim>\<open>run_validation\<close> raises no error,
  whatever the two lengths are: it returns the metrics of the two sequences cut to the
  shorter length \<open>n\<close>, with \<open>n\<close> as the sample count. With three gold records and two
  prediction records every metric is computed over the first two records of each.
\<close>

theorem run_validation_truncates:
  assumes "fs gold_path = Parsed (JList gs)" and "fs extraction_path = Parsed (JList ps)"
  shows "run_validation repr fs gold_path extraction_path = Inr (spec_metrics repr gs ps)
         \<and> n_samples (spec_metrics repr gs ps) = min (length gs) (length ps)"
proof -
  from assms have "load_json fs gold_path = Inr gs" and "load_json fs extraction_path = Inr ps"
    by (simp_all add: load_json_def)
  then have "run_validation repr fs gold_path extraction_path = Inr (spec_metrics repr gs ps)"
    by (rule run_validation_loaded)
  then show ?thesis
    by (simp add: spec_metrics_def Let_def)
qed

theorem run_validation_truncates_witness:
  "sample_fs (ustr ''gold.json'') = Parsed (JList sample_gold)
   \<and> sample_fs (ustr ''pred.json'') = Parsed (JList sample_pred)
   \<and> length sample_gold = 3 \<and> length sample_pred = 2
   \<and> run_validation (\<lambda>v. ustr ''None'') sample_fs (ustr ''gold.json'') (ustr ''pred.json'') =
       Inr \<lparr>n_samples = 2,
            diabetes_type_accuracy = 1,
            diabetes_status_accuracy = 1,
            diabetes_a1c_recall = 1 / 2,
            diabetes_glucose_recall = 1,
            bp_hypertension_status_accuracy = 1 / 2,
            bp_readings_recall = 1\<rparr>"
proof -
  have g: "sample_fs (ustr ''gold.json'') = Parsed (JList sample_gold)"
    and p: "sample_fs (ustr ''pred.json'') = Parsed (JList sample_pred)"
    by (simp_all add: sample_fs_def ustr_def)
  have "spec_metrics (\<lambda>v. ustr ''None'') sample_gold sample_pred =
       \<lparr>n_samples = 2,
        diabetes_type_accuracy = 1,
        diabetes_status_accuracy = 1,
        diabetes_a1c_recall = 1 / 2,
        diabetes_glucose_recall = 1,
        bp_hypertension_status_accuracy = 1 / 2,
        bp_readings_recall = 1\<rparr>"
    by (simp add: spec_metrics_def spec_accuracy_def spec_recall_def correct_pairs_def upt_0_2
        scalar_at_def list_at_def micro_recall_def total_tp_def total_fn_def record_tp_def
        record_fn_def stripped_def py_str_def sample_gold_def sample_pred_def ustr_def strip_def
        isspace_def)
  with run_validation_truncates [OF g p, of "\<lambda>v. ustr ''None''"] g p show ?thesis
    by (simp add: sample_gold_def sample_pred_def)
qed

text \<open>
  Claim C10. When the shorter of the two loaded sequences is empty,
  \<^verbatim>\<open>run_validation\<close> returns the fixed mapping: zero samples, the three accuracies 0
  and the three recalls 1. The result is the same whatever the two metric functions are
  and whatever the records of the other sequence hold, so neither is consulted.
\<close>

theorem run_validation_zero_samples:
  assumes "load_json fs gold_path = Inr gold_list"
      and "load_json fs extraction_path = Inr pred_list"
      and "min (length gold_list) (length pred_list) = 0"
  shows "run_validation_with accuracy recall fs gold_path extraction_path = Inr zero_metrics
         \<and> run_validation repr fs gold_path extraction_path = Inr zero_metrics
         \<and> zero_metrics =
             \<lparr>n_samples = 0, diabetes_type_accuracy = 0, diabetes_status_accuracy = 0,
              diabetes_a1c_recall = 1, diabetes_glucose_recall = 1,
              bp_hypertension_status_accuracy = 0, bp_readings_recall = 1\<rparr>"
  using assms
  by (simp add: run_validation_def run_validation_with_def seq_Inr zero_metrics_def)

theorem run_validation_zero_samples_witness:
  "load_json sample_fs (ustr ''gold.json'') = Inr sample_gold
   \<and> load_json sample_fs (ustr ''empty.json'') = Inr []
   \<and> min (length sample_gold) (length ([] :: json list)) = 0
   \<and> run_validation_with (\<lambda>gs ps gg gp. Inl TypeError) (\<lambda>gs ps gg gp. Inl TypeError)
       sample_fs (ustr ''gold.json'') (ustr ''empty.json'') = Inr zero_metrics
   \<and> run_validation (\<lambda>v. ustr ''None'') sample_fs (ustr ''gold.json'') (ustr ''empty.json'')
       = Inr zero_metrics"
proof -
  have g: "load_json sample_fs (ustr ''gold.json'') = Inr sample_gold"
    and e: "load_json sample_fs (ustr ''empty.json'') = Inr []"
    by (simp_all add: load_json_def sample_fs_def ustr_def)
  have m: "min (length sample_gold) (length ([] :: json list)) = 0"
    by simp
  from run_validation_zero_samples [OF g e m] g e m show ?thesis
    by simp
qed

section \<open>File errors\<close>

text \<open>
  Claim C7. The loader raises \<^verbatim>\<open>FileNotFoundError\<close> exactly when nothing exists at
  the path, and its \<^verbatim>\<open>ValueError\<close> exactly when the file parses to a value that is
  no list. When the entry point runs the validation (it is not called with exactly one
  argument) and the loader raises one of the two on the gold file, or on the prediction
  file after the gold file was loaded, \<^verbatim>\<open>main\<close> returns 1, writes that one error
  to standard error and writes no report.
\<close>

theorem file_errors_reach_entry_point:
  assumes "length argv \<noteq> 2"
      and "gold_path = (if 3 \<le> length argv then argv ! 1 else GOLD_PATH)"
      and "extraction_path = (if 3 \<le> length argv then argv ! 2 else EXTRACTION_PATH)"
  shows "(load_json fs path = Inl (FileNotFoundError path)) = (fs path = Absent)
         \<and> (load_json fs path = Inl (ValueError path)) = (\<exists>v. fs path = Parsed v \<and> \<not> is_list v)
         \<and> (\<forall>e. (e = FileNotFoundError gold_path \<or> e = ValueError gold_path)
                  \<and> load_json fs gold_path = Inl e \<longrightarrow>
                main repr GOLD_PATH EXTRACTION_PATH argv fs =
                  Inr \<lparr>exit_code = 1, stdout = [], stderr = [ErrorLine e]\<rparr>)
         \<and> (\<forall>e gs. (e = FileNotFoundError extraction_path \<or> e = ValueError extraction_path)
                  \<and> load_json fs gold_path = Inr gs \<and> load_json fs extraction_path = Inl e \<longrightarrow>
                main repr GOLD_PATH EXTRACTION_PATH argv fs =
                  Inr \<lparr>exit_code = 1, stdout = [], stderr = [ErrorLine e]\<rparr>)"
proof -
  have a: "(load_json fs path = Inl (FileNotFoundError path)) = (fs path = Absent)"
    by (cases "fs path") (auto simp: load_json_def split: json.splits)
  have b: "(load_json fs path = Inl (ValueError path)) = (\<exists>v. fs path = Parsed v \<and> \<not> is_list v)"
  proof (cases "fs path")
    case (Parsed v)
    then show ?thesis by (cases v) (simp_all add: load_json_def)
  qed (simp_all add: load_json_def)
  have m: "main repr GOLD_PATH EXTRACTION_PATH argv fs = try_report repr fs gold_path extraction_path"
    using assms by (simp add: main_def)
  have c: "main repr GOLD_PATH EXTRACTION_PATH argv fs =
             Inr \<lparr>exit_code = 1, stdout = [], stderr = [ErrorLine e]\<rparr>"
    if "e = FileNotFoundError gold_path \<or> e = ValueError gold_path"
      and "load_json fs gold_path = Inl e" for e
    using that
    by (auto simp: m try_report_def run_validation_def run_validation_with_def seq_Inl)
  have d: "main repr GOLD_PATH EXTRACTION_PATH argv fs =
             Inr \<lparr>exit_code = 1, stdout = [], stderr = [ErrorLine e]\<rparr>"
    if "e = FileNotFoundError extraction_path \<or> e = ValueError extraction_path"
      and "load_json fs gold_path = Inr gs" and "load_json fs extraction_path = Inl e" for e gs
    using that
    by (auto simp: m try_report_def run_validation_def run_validation_with_def seq_Inl seq_Inr)
  from a b c d show ?thesis by blast
qed

theorem file_errors_reach_entry_point_witness:
  "length [ustr ''validate_extraction.py'', ustr ''gold.json'', ustr ''object.json''] \<noteq> 2
   \<and> load_json sample_fs (ustr ''gold.json'') = Inr sample_gold
   \<and> load_json sample_fs (ustr ''object.json'') = Inl (ValueError (ustr ''object.json''))
   \<and> load_json sample_fs (ustr ''missing.json'') = Inl (FileNotFoundError (ustr ''missing.json''))
   \<and> main (\<lambda>v. ustr ''None'') (ustr ''data/gold_standard.json'') (ustr ''data/extraction_results.json'')
       [ustr ''validate_extraction.py'', ustr ''gold.json'', ustr ''object.json''] sample_fs =
       Inr \<lparr>exit_code = 1, stdout = [], stderr = [ErrorLine (ValueError (ustr ''object.json''))]\<rparr>"
proof -
  have g: "load_json sample_fs (ustr ''gold.json'') = Inr sample_gold"
    and e: "load_json sample_fs (ustr ''object.json'') = Inl (ValueError (ustr ''object.json''))"
    and f: "load_json sample_fs (ustr ''missing.json'') = Inl (FileNotFoundError (ustr ''missing.json''))"
    by (simp_all add: load_json_def sample_fs_def ustr_def)
  from file_errors_reach_entry_point
    [of "[ustr ''validate_extraction.py'', ustr ''gold.json'', ustr ''object.json'']"
        "ustr ''gold.json''" "ustr ''data/gold_standard.json''"
        "ustr ''object.json''" "ustr ''data/extraction_results.json''"
        sample_fs "ustr ''missing.json''" "\<lambda>v. ustr ''None''"] g e f
  show ?thesis by simp
qed

end
